theory Spec2Isabelle
  imports Main
begin

section \<open>JavaScript values\<close>

text \<open>
  The wrapper of \<^verbatim>\<open>usage-tracking-fixed.ts\<close> handles values whose static type says
  little: the parsed request body is \<^verbatim>\<open>any\<close>, and the value caught from the handler is
  only cast to \<^verbatim>\<open>Error\<close>. They are modelled as JavaScript data.
  \<^item> A number is represented by the text that \<^verbatim>\<open>String(n)\<close> gives for it
    (\<^verbatim>\<open>0\<close>, \<^verbatim>\<open>-1.5\<close>, \<^verbatim>\<open>1e+21\<close>, \<^verbatim>\<open>NaN\<close>, \<^verbatim>\<open>Infinity\<close>), which tells the numbers
    apart (the two zeros are both \<^verbatim>\<open>0\<close>); no arithmetic is done on these values.
  \<^item> Strings are byte strings.
  \<^item> An object is the list of its properties, in the order in which JavaScript
    enumerates them, with distinct keys.
  \<^item> An \<^verbatim>\<open>Error\<close> object is kept apart from plain objects: it carries its name and its
    message.
  \<^item> \<open>JCyclic ps\<close> is an object with the properties \<open>ps\<close> that also contains itself,
    under a name other than the two the source reads.
  \<^item> A function is opaque; a symbol carries its description.
\<close>

datatype jsval =
    JUndefined
  | JNull
  | JBool bool
  | JNum string
  | JBigInt int
  | JStr string
  | JArr "jsval list"
  | JObj "(string \<times> jsval) list"
  | JCyclic "(string \<times> jsval) list"
  | JError string string
  | JFunction
  | JSymbol string

text \<open>What \<^verbatim>\<open>if (v)\<close> and \<^verbatim>\<open>v || w\<close> test.\<close>

fun truthy :: "jsval \<Rightarrow> bool" where
  "truthy JUndefined = False"
| "truthy JNull = False"
| "truthy (JBool b) = b"
| "truthy (JNum n) = (n \<noteq> ''0'' \<and> n \<noteq> ''NaN'')"
| "truthy (JBigInt i) = (i \<noteq> 0)"
| "truthy (JStr s) = (s \<noteq> [])"
| "truthy (JArr xs) = True"
| "truthy (JObj ps) = True"
| "truthy (JCyclic ps) = True"
| "truthy (JError n m) = True"
| "truthy JFunction = True"
| "truthy (JSymbol d) = True"

text \<open>
  Reading a property, \<^verbatim>\<open>v.k\<close>. On \<^verbatim>\<open>undefined\<close> and \<^verbatim>\<open>null\<close> it throws a TypeError
  (\<open>Inl\<close>). Primitives, arrays and functions have no property of the two names the
  source reads (\<^verbatim>\<open>project_name\<close>, \<^verbatim>\<open>message\<close>); the properties of the built-in
  prototypes (\<^verbatim>\<open>length\<close> and the like) are not modelled.
\<close>

definition TypeError :: "string \<Rightarrow> jsval" where
  "TypeError m = JError ''TypeError'' m"

fun get_prop :: "jsval \<Rightarrow> string \<Rightarrow> jsval + jsval" where
  "get_prop JUndefined k = Inl (TypeError ''Cannot read properties of undefined'')"
| "get_prop JNull k = Inl (TypeError ''Cannot read properties of null'')"
| "get_prop (JObj ps) k = Inr (case map_of ps k of None \<Rightarrow> JUndefined | Some v \<Rightarrow> v)"
| "get_prop (JCyclic ps) k = Inr (case map_of ps k of None \<Rightarrow> JUndefined | Some v \<Rightarrow> v)"
| "get_prop (JError n m) k =
     Inr (if k = ''message'' then JStr m else if k = ''name'' then JStr n else JUndefined)"
| "get_prop v k = Inr JUndefined"

definition is_Error :: "jsval \<Rightarrow> bool" where
  "is_Error v = (case v of JError n m \<Rightarrow> True | _ \<Rightarrow> False)"

subsection \<open>JSON.stringify\<close>

definition hex_digit :: "nat \<Rightarrow> char" where
  "hex_digit n = ''0123456789abcdef'' ! n"

text \<open>
  QuoteJSONString: the quotation mark and the backslash are escaped, the control
  characters below 0x20 are written with their short escape or as a \<^verbatim>\<open>u\<close> escape with
  four hexadecimal digits, every other character stands for itself.
\<close>

definition quote_char :: "char \<Rightarrow> string" where
  "quote_char c =
     (if c = CHR 0x22 then [CHR 0x5C, CHR 0x22]
      else if c = CHR 0x5C then [CHR 0x5C, CHR 0x5C]
      else if c = CHR 0x08 then [CHR 0x5C, CHR ''b'']
      else if c = CHR 0x0C then [CHR 0x5C, CHR ''f'']
      else if c = CHR 0x0A then [CHR 0x5C, CHR ''n'']
      else if c = CHR 0x0D then [CHR 0x5C, CHR ''r'']
      else if c = CHR 0x09 then [CHR 0x5C, CHR ''t'']
      else if (of_char c :: nat) < 32
        then [CHR 0x5C, CHR ''u'', CHR ''0'', CHR ''0'',
              hex_digit (of_char c div 16), hex_digit (of_char c mod 16)]
      else [c])"

definition quote :: "string \<Rightarrow> string" where
  "quote s = CHR 0x22 # concat (map quote_char s) @ [CHR 0x22]"

fun join :: "string \<Rightarrow> string list \<Rightarrow> string" where
  "join sep [] = []"
| "join sep [x] = x"
| "join sep (x # y # ys) = x @ sep @ join sep (y # ys)"

text \<open>
  \<open>JSON_stringify v\<close> is \<open>Inl e\<close> where \<^verbatim>\<open>JSON.stringify\<close> throws \<open>e\<close> (on a big
  integer and on an object that contains itself), \<open>Inr None\<close> where it returns
  \<^verbatim>\<open>undefined\<close> (for \<^verbatim>\<open>undefined\<close>, a function and a symbol) and \<open>Inr (Some t)\<close> where
  it returns the text \<open>t\<close>. A property whose value gives \<^verbatim>\<open>undefined\<close> is left out of
  an object; in an array it is written \<^verbatim>\<open>null\<close>. A number that is not finite is
  written \<^verbatim>\<open>null\<close>. An Error object has no enumerable property of its own. Members are
  written in order, and the first one that throws ends the call.
\<close>

fun JSON_stringify :: "jsval \<Rightarrow> jsval + string option"
  and stringify_elems :: "jsval list \<Rightarrow> jsval + string list"
  and stringify_props :: "(string \<times> jsval) list \<Rightarrow> jsval + string list"
where
  "JSON_stringify JUndefined = Inr None"
| "JSON_stringify JNull = Inr (Some ''null'')"
| "JSON_stringify (JBool b) = Inr (Some (if b then ''true'' else ''false''))"
| "JSON_stringify (JNum n) =
     Inr (Some (if n = ''NaN'' \<or> n = ''Infinity'' \<or> n = ''-Infinity'' then ''null'' else n))"
| "JSON_stringify (JBigInt i) = Inl (TypeError ''Do not know how to serialize a BigInt'')"
| "JSON_stringify (JStr s) = Inr (Some (quote s))"
| "JSON_stringify (JArr xs) =
     (case stringify_elems xs of
        Inl e \<Rightarrow> Inl e
      | Inr ts \<Rightarrow> Inr (Some (''['' @ join '','' ts @ '']'')))"
| "JSON_stringify (JObj ps) =
     (case stringify_props ps of
        Inl e \<Rightarrow> Inl e
      | Inr ts \<Rightarrow> Inr (Some (''{'' @ join '','' ts @ ''}'')))"
| "JSON_stringify (JCyclic ps) = Inl (TypeError ''Converting circular structure to JSON'')"
| "JSON_stringify (JError n m) = Inr (Some ''{}'')"
| "JSON_stringify JFunction = Inr None"
| "JSON_stringify (JSymbol d) = Inr None"
| "stringify_elems [] = Inr []"
| "stringify_elems (x # xs) =
     (case JSON_stringify x of
        Inl e \<Rightarrow> Inl e
      | Inr t \<Rightarrow>
          (case stringify_elems xs of
             Inl e \<Rightarrow> Inl e
           | Inr ts \<Rightarrow> Inr ((case t of None \<Rightarrow> ''null'' | Some t' \<Rightarrow> t') # ts)))"
| "stringify_props [] = Inr []"
| "stringify_props ((k, v) # ps) =
     (case JSON_stringify v of
        Inl e \<Rightarrow> Inl e
      | Inr t \<Rightarrow>
          (case stringify_props ps of
             Inl e \<Rightarrow> Inl e
           | Inr ts \<Rightarrow>
               Inr (case t of None \<Rightarrow> ts | Some t' \<Rightarrow> (quote k @ '':'' @ t') # ts)))"

section \<open>Requests and responses\<close>

text \<open>
  A \<^verbatim>\<open>Headers\<close> object is the list of its name and value pairs; \<^verbatim>\<open>get\<close> compares
  names without regard to case, joins the values of one name with a comma and a space,
  and gives \<^verbatim>\<open>null\<close> (\<open>None\<close>) when the name is absent.
\<close>

definition lower_char :: "char \<Rightarrow> char" where
  "lower_char c =
     (case map_of (zip ''ABCDEFGHIJKLMNOPQRSTUVWXYZ'' ''abcdefghijklmnopqrstuvwxyz'') c of
        None \<Rightarrow> c
      | Some l \<Rightarrow> l)"

definition headers_get :: "(string \<times> string) list \<Rightarrow> string \<Rightarrow> string option" where
  "headers_get hs name =
     (case filter (\<lambda>(k, v). map lower_char k = map lower_char name) hs of
        [] \<Rightarrow> None
      | kvs \<Rightarrow> Some (join '', '' (map snd kvs)))"

text \<open>
  A \<^verbatim>\<open>Request\<close> object. Its body stream is represented by what reading it as JSON
  gives: \<open>None\<close> when the request has no body, \<open>Some (Inr v)\<close> when the text parses to
  \<open>v\<close>, \<open>Some (Inl e)\<close> when \<^verbatim>\<open>JSON.parse\<close> throws \<open>e\<close>. \<open>bodyUsed\<close> is the flag of the
  same name: the stream can be read once. \<open>req_method\<close> is the property \<^verbatim>\<open>method\<close>.

  Requests are objects with identity, so they live in a store, and a request is
  referred to by its index there.
\<close>

record request =
  req_method :: string
  url :: string
  headers :: "(string \<times> string) list"
  body :: "(jsval + jsval) option"
  bodyUsed :: bool

type_synonym store = "request list"

record response =
  status :: int
  resp_headers :: "(string \<times> string) list"
  resp_body :: "string option"

definition SyntaxError :: "string \<Rightarrow> jsval" where
  "SyntaxError m = JError ''SyntaxError'' m"

text \<open>
  \<^verbatim>\<open>req.clone()\<close> throws when the body has been read; otherwise it makes a new
  object with the same content, whose body is a branch of its own.
\<close>

definition clone :: "store \<Rightarrow> nat \<Rightarrow> jsval + (store \<times> nat)" where
  "clone \<sigma> r =
     (if bodyUsed (\<sigma> ! r) then Inl (TypeError ''Body is unusable'')
      else Inr (\<sigma> @ [\<sigma> ! r], length \<sigma>))"

text \<open>
  \<^verbatim>\<open>await r.json()\<close>: rejects when the body has been read; otherwise it reads the
  body of \<open>r\<close>, and of no other object, to the end, and parses the text.
\<close>

definition json :: "store \<Rightarrow> nat \<Rightarrow> (jsval + jsval) \<times> store" where
  "json \<sigma> r =
     (if bodyUsed (\<sigma> ! r) then (Inl (TypeError ''Body is unusable''), \<sigma>)
      else (case body (\<sigma> ! r) of
              None \<Rightarrow> (Inl (SyntaxError ''Unexpected end of JSON input''), \<sigma>)
            | Some parsed \<Rightarrow> (parsed, \<sigma>[r := (\<sigma> ! r)\<lparr>bodyUsed := True\<rparr>])))"

section \<open>The usage logger\<close>

text \<open>
  The argument of \<^verbatim>\<open>logUsage\<close>. \<open>endpointId\<close> is optional (\<open>None\<close> is
  \<^verbatim>\<open>undefined\<close>). \<open>projectName\<close> and \<open>errorMessage\<close> hold whatever value the
  wrapper read from the body and from the caught value, so they are JavaScript values.
\<close>

record usage_record =
  serviceName :: string
  endpointId :: "string option"
  projectName :: jsval
  requestTimestamp :: string
  responseStatus :: int
  responseTimeMs :: int
  errorMessage :: jsval
  requestMetadata :: "(string \<times> jsval) list"

text \<open>The object given to \<^verbatim>\<open>insert\<close>; in \<open>endpoint_id\<close>, \<open>None\<close> is \<^verbatim>\<open>null\<close>.\<close>

record usage_row =
  service_name :: string
  endpoint_id :: "string option"
  project_name :: jsval
  request_timestamp :: string
  response_status :: int
  response_time_ms :: int
  request_payload_size :: int
  response_payload_size :: int
  error_message :: jsval
  request_metadata :: "(string \<times> jsval) list"

datatype console_entry = Console_error "jsval list" | Console_log "jsval list"

text \<open>How an awaited promise settles.\<close>

datatype 'a settled = Fulfilled 'a | Rejected jsval

text \<open>
  Modelled from the spec: \<^verbatim>\<open>createClient\<close> belongs to the imported supabase-js
  library, which is not part of the repository. The spec says that missing
  configuration is fatal for the logging call and surfaces there as a caught internal
  error: the client's constructor throws when the URL or the key is \<^verbatim>\<open>undefined\<close>
  or empty. What the constructor does with a URL and a key that are there is not said
  and is taken as given: \<open>construct u k\<close> is the value it then throws, \<open>None\<close> when it
  makes the client. The client is the pair of the two.
\<close>

definition createClient ::
  "(string \<Rightarrow> string \<Rightarrow> jsval option) \<Rightarrow> string option \<Rightarrow> string option \<Rightarrow>
     jsval + (string \<times> string)" where
  "createClient construct supabaseUrl supabaseKey =
     (case supabaseUrl of
        None \<Rightarrow> Inl (JError ''Error'' ''supabaseUrl is required.'')
      | Some u \<Rightarrow>
          if u = [] then Inl (JError ''Error'' ''supabaseUrl is required.'')
          else (case supabaseKey of
                  None \<Rightarrow> Inl (JError ''Error'' ''supabaseKey is required.'')
                | Some k \<Rightarrow>
                    if k = [] then Inl (JError ''Error'' ''supabaseKey is required.'')
                    else (case construct u k of
                            Some e \<Rightarrow> Inl e
                          | None \<Rightarrow> Inr (u, k))))"

text \<open>
  The storage collaborator: what awaiting
  \<^verbatim>\<open>supabase.from(table).insert(row)\<close> gives, for a client, a table and a row. It is
  fulfilled with the \<^verbatim>\<open>error\<close> field of the result (\<^verbatim>\<open>null\<close> when the row was
  written) or rejected (a failure of the network that the library does not catch).
\<close>

type_synonym storage = "string \<times> string \<Rightarrow> string \<Rightarrow> usage_row \<Rightarrow> jsval settled"

text \<open>The object literal of lines 107 to 118.\<close>

definition usage_row_of :: "usage_record \<Rightarrow> usage_row" where
  "usage_row_of data =
     \<lparr>service_name = serviceName data,
      endpoint_id =
        (case endpointId data of
           None \<Rightarrow> None
         | Some e \<Rightarrow> if e = [] then None else Some e),
      project_name = projectName data,
      request_timestamp = requestTimestamp data,
      response_status = responseStatus data,
      response_time_ms = responseTimeMs data,
      request_payload_size = 0,
      response_payload_size = 0,
      error_message = errorMessage data,
      request_metadata = requestMetadata data\<rparr>"

text \<open>
  What \<^verbatim>\<open>logUsage\<close> does is collected in a record: the inserts it asked of the
  storage collaborator \<open>db\<close>, with the table of each, and what it wrote to the console.
  \<open>construct\<close> is what the library's constructor does, as above.
\<close>

record log_effects =
  inserts :: "(string \<times> usage_row) list"
  console :: "console_entry list"

text \<open>
  The \<^verbatim>\<open>try\<close> block of \<^verbatim>\<open>logUsage\<close> (lines 98 to 124): \<open>Inl\<close> is the value it throws,
  with the inserts made before.
\<close>

definition logUsage_try ::
  "(string \<Rightarrow> string \<Rightarrow> jsval option) \<Rightarrow> (string \<rightharpoonup> string) \<Rightarrow> storage \<Rightarrow>
     usage_record \<Rightarrow> (jsval \<times> (string \<times> usage_row) list) + log_effects" where
  "logUsage_try construct env db data =
     (let supabaseUrl = env ''SUPABASE_URL'';
          supabaseServiceKey = env ''SUPABASE_SERVICE_ROLE_KEY''
      in case createClient construct supabaseUrl supabaseServiceKey of
           Inl e \<Rightarrow> Inl (e, [])
         | Inr supabase \<Rightarrow>
             (let row = usage_row_of data in
              case db supabase ''service_usage_logs'' row of
                Rejected e \<Rightarrow> Inl (e, [(''service_usage_logs'', row)])
              | Fulfilled error \<Rightarrow>
                  if truthy error
                  then Inr \<lparr>inserts = [(''service_usage_logs'', row)],
                            console = [Console_error [JStr ''Failed to log usage:'', error]]\<rparr>
                  else Inr \<lparr>inserts = [(''service_usage_logs'', row)],
                            console = [Console_log [JStr ''Usage logged successfully for'',
                                                    JStr (serviceName data)]]\<rparr>))"

text \<open>
  \<^verbatim>\<open>logUsage\<close> (lines 87 to 128): the \<^verbatim>\<open>catch\<close> clause writes the thrown value to
  the console. The result is how the promise of the \<^verbatim>\<open>async\<close> function settles.
\<close>

definition logUsage ::
  "(string \<Rightarrow> string \<Rightarrow> jsval option) \<Rightarrow> (string \<rightharpoonup> string) \<Rightarrow> storage \<Rightarrow>
     usage_record \<Rightarrow> log_effects settled" where
  "logUsage construct env db data =
     (case logUsage_try construct env db data of
        Inr eff \<Rightarrow> Fulfilled eff
      | Inl (error, rows) \<Rightarrow>
          Fulfilled \<lparr>inserts = rows,
                     console = [Console_error [JStr ''Error in usage logging:'', error]]\<rparr>)"

section \<open>The tracking wrapper\<close>

text \<open>
  What the wrapper takes from outside: the two readings of \<^verbatim>\<open>Date.now()\<close> (line 10,
  and line 32 or 54), the text that \<^verbatim>\<open>new Date().toISOString()\<close> gives when the
  record is built, the environment of the process, what the constructor of the
  storage client does with a URL and a key, and the storage collaborator.
\<close>

record world =
  Date_now_entry :: int
  Date_now_settled :: int
  Date_toISOString :: string
  Deno_env :: "string \<rightharpoonup> string"
  supabase_construct :: "string \<Rightarrow> string \<Rightarrow> jsval option"
  supabase_insert :: storage

text \<open>
  The handler is given the store and the request, and settles with a response or
  with a thrown value, which may be any value; it leaves a store behind.
\<close>

type_synonym handler = "store \<Rightarrow> nat \<Rightarrow> response settled \<times> store"

text \<open>
  One run of the wrapped handler: how its promise settles, the calls it made of the
  handler, the records it gave to \<^verbatim>\<open>logUsage\<close>, and what the logging did. The
  logging is not awaited; its effects are collected here all the same, whenever they
  happen.
\<close>

record run =
  outcome :: "response settled"
  handler_calls :: "(store \<times> nat) list"
  dispatched :: "usage_record list"
  logging :: log_effects

text \<open>The \<^verbatim>\<open>try\<close> block of lines 18 to 22; \<open>Inl\<close> is the value it throws.\<close>

definition projectName_try :: "store \<Rightarrow> nat \<Rightarrow> (jsval + jsval) \<times> store" where
  "projectName_try \<sigma> req =
     (case clone \<sigma> req of
        Inl e \<Rightarrow> (Inl e, \<sigma>)
      | Inr (\<sigma>1, c) \<Rightarrow>
          (case json \<sigma>1 c of
             (Inl e, \<sigma>2) \<Rightarrow> (Inl e, \<sigma>2)
           | (Inr parsed, \<sigma>2) \<Rightarrow>
               (case get_prop parsed ''project_name'' of
                  Inl e \<Rightarrow> (Inl e, \<sigma>2)
                | Inr v \<Rightarrow> (Inr (if truthy v then v else JStr ''default''), \<sigma>2))))"

text \<open>\<^verbatim>\<open>req.headers.get('X-Project-Name') || 'default'\<close> (line 25).\<close>

definition header_or_default :: "request \<Rightarrow> string" where
  "header_or_default r =
     (case headers_get (headers r) ''X-Project-Name'' of
        None \<Rightarrow> ''default''
      | Some h \<Rightarrow> if h = [] then ''default'' else h)"

text \<open>Lines 16 to 26: the project name, and the store as it is afterwards.\<close>

definition extract_projectName :: "store \<Rightarrow> nat \<Rightarrow> jsval \<times> store" where
  "extract_projectName \<sigma> req =
     (case projectName_try \<sigma> req of
        (Inr p, \<sigma>') \<Rightarrow> (p, \<sigma>')
      | (Inl e, \<sigma>') \<Rightarrow> (JStr (header_or_default (\<sigma>' ! req)), \<sigma>'))"

text \<open>
  \<^verbatim>\<open>logUsage(data).catch(err => console.error(label, err))\<close> (lines 35 to 49 and 57
  to 69).
\<close>

definition dispatch :: "world \<Rightarrow> string \<Rightarrow> usage_record \<Rightarrow> log_effects" where
  "dispatch w label data =
     (case logUsage (supabase_construct w) (Deno_env w) (supabase_insert w) data of
        Fulfilled eff \<Rightarrow> eff
      | Rejected err \<Rightarrow> \<lparr>inserts = [], console = [Console_error [JStr label, err]]\<rparr>)"

definition nullable :: "string option \<Rightarrow> jsval" where
  "nullable x = (case x of None \<Rightarrow> JNull | Some s \<Rightarrow> JStr s)"

text \<open>
  The function that \<^verbatim>\<open>withUsageTracking(handler, serviceName, endpointId)\<close> returns,
  applied to the request \<open>req\<close> in the store \<open>\<sigma>\<close>. In the \<^verbatim>\<open>catch\<close> clause
  \<^verbatim>\<open>error.message\<close> is read while the argument of \<^verbatim>\<open>logUsage\<close> is built (line 64);
  when that read throws, nothing encloses it and the promise of the wrapped handler
  is rejected. The same holds when \<^verbatim>\<open>JSON.stringify\<close> throws (line 73), which is
  after \<^verbatim>\<open>logUsage\<close> has been called.
\<close>

definition withUsageTracking ::
  "handler \<Rightarrow> string \<Rightarrow> string option \<Rightarrow> world \<Rightarrow> store \<Rightarrow> nat \<Rightarrow> run" where
  "withUsageTracking handler sName eId w \<sigma> req =
     (let startTime = Date_now_entry w;
          (pName, \<sigma>1) = extract_projectName \<sigma> req
      in case handler \<sigma>1 req of
           (Fulfilled response, \<sigma>2) \<Rightarrow>
             (let elapsed = Date_now_settled w - startTime;
                  data = \<lparr>serviceName = sName,
                          endpointId = eId,
                          projectName = pName,
                          requestTimestamp = Date_toISOString w,
                          responseStatus = status response,
                          responseTimeMs = elapsed,
                          errorMessage = JNull,
                          requestMetadata =
                            [(''method'', JStr (req_method (\<sigma>2 ! req))),
                             (''url'', JStr (url (\<sigma>2 ! req))),
                             (''userAgent'', nullable (headers_get (headers (\<sigma>2 ! req)) ''user-agent'')),
                             (''origin'', nullable (headers_get (headers (\<sigma>2 ! req)) ''origin''))]\<rparr>
              in \<lparr>outcome = Fulfilled response,
                  handler_calls = [(\<sigma>1, req)],
                  dispatched = [data],
                  logging = dispatch w ''Failed to log usage:'' data\<rparr>)
         | (Rejected error, \<sigma>2) \<Rightarrow>
             (let elapsed = Date_now_settled w - startTime
              in case get_prop error ''message'' of
                   Inl e \<Rightarrow>
                     \<lparr>outcome = Rejected e,
                      handler_calls = [(\<sigma>1, req)],
                      dispatched = [],
                      logging = \<lparr>inserts = [], console = []\<rparr>\<rparr>
                 | Inr message \<Rightarrow>
                     (let data = \<lparr>serviceName = sName,
                                  endpointId = eId,
                                  projectName = JStr ''error'',
                                  requestTimestamp = Date_toISOString w,
                                  responseStatus = 500,
                                  responseTimeMs = elapsed,
                                  errorMessage = message,
                                  requestMetadata =
                                    [(''method'', JStr (req_method (\<sigma>2 ! req))),
                                     (''url'', JStr (url (\<sigma>2 ! req)))]\<rparr>
                      in case JSON_stringify
                                (JObj [(''error'', JStr ''Internal server error''),
                                       (''message'', message)]) of
                           Inl e \<Rightarrow>
                             \<lparr>outcome = Rejected e,
                              handler_calls = [(\<sigma>1, req)],
                              dispatched = [data],
                              logging = dispatch w ''Failed to log error usage:'' data\<rparr>
                         | Inr text \<Rightarrow>
                             \<lparr>outcome =
                                Fulfilled
                                  \<lparr>status = 500,
                                   resp_headers = [(''Content-Type'', ''application/json'')],
                                   resp_body = text\<rparr>,
                              handler_calls = [(\<sigma>1, req)],
                              dispatched = [data],
                              logging = dispatch w ''Failed to log error usage:'' data\<rparr>)))"

text \<open>The store in which the handler is called (line 29).\<close>

definition store_at_call :: "store \<Rightarrow> nat \<Rightarrow> store" where
  "store_at_call \<sigma> req = snd (extract_projectName \<sigma> req)"

section \<open>Concrete inputs\<close>

text \<open>
  Handlers, a request, a world and a record on which the model is run below: a handler
  that returns a given response, one that throws a given value, and one that reads the
  body of its request as JSON and answers with it.
\<close>

definition returns :: "response \<Rightarrow> handler" where
  "returns resp = (\<lambda>\<sigma> req. (Fulfilled resp, \<sigma>))"

definition throws :: "jsval \<Rightarrow> handler" where
  "throws v = (\<lambda>\<sigma> req. (Rejected v, \<sigma>))"

definition reads_body :: handler where
  "reads_body =
     (\<lambda>\<sigma> req.
        case json \<sigma> req of
          (Inl e, \<sigma>') \<Rightarrow> (Rejected e, \<sigma>')
        | (Inr v, \<sigma>') \<Rightarrow>
            (Fulfilled
               \<lparr>status = 200,
                resp_headers = [],
                resp_body = (case JSON_stringify v of Inl e \<Rightarrow> None | Inr t \<Rightarrow> t)\<rparr>,
             \<sigma>'))"

definition ex_request :: request where
  "ex_request =
     \<lparr>req_method = ''POST'',
      url = ''https://example.test/fn'',
      headers = [(''X-Project-Name'', ''acme''), (''User-Agent'', ''curl'')],
      body = Some (Inr (JObj [])),
      bodyUsed = False\<rparr>"

definition ex_response :: response where
  "ex_response = \<lparr>status = 404, resp_headers = [], resp_body = Some ''not found''\<rparr>"

definition ex_env :: "string \<rightharpoonup> string" where
  "ex_env = [''SUPABASE_URL'' \<mapsto> ''https://db.example.test'',
             ''SUPABASE_SERVICE_ROLE_KEY'' \<mapsto> ''secret'']"

text \<open>A constructor that makes a client for one URL and throws for every other one.\<close>

definition ex_construct :: "string \<Rightarrow> string \<Rightarrow> jsval option" where
  "ex_construct u k =
     (if u = ''https://db.example.test'' then None else Some (TypeError ''Invalid URL''))"

definition ex_world :: world where
  "ex_world =
     \<lparr>Date_now_entry = 1000,
      Date_now_settled = 1250,
      Date_toISOString = ''2024-01-01T00:00:01.250Z'',
      Deno_env = ex_env,
      supabase_construct = ex_construct,
      supabase_insert = (\<lambda>client table row. Fulfilled JNull)\<rparr>"

definition ex_record :: usage_record where
  "ex_record =
     \<lparr>serviceName = ''svc'',
      endpointId = None,
      projectName = JStr ''acme'',
      requestTimestamp = ''2024-01-01T00:00:01.250Z'',
      responseStatus = 200,
      responseTimeMs = 250,
      errorMessage = JNull,
      requestMetadata = [(''method'', JStr ''POST'')]\<rparr>"

text \<open>
  Two storage collaborators that fail: one reports an error for every insert, the
  other cannot be reached.
\<close>

definition db_denies :: storage where
  "db_denies = (\<lambda>client table row. Fulfilled (JObj [(''message'', JStr ''permission denied'')]))"

definition db_unreachable :: storage where
  "db_unreachable = (\<lambda>client table row. Rejected (TypeError ''fetch failed''))"

text \<open>
  Values to throw: an object whose message has every kind of character that
  \<^verbatim>\<open>JSON.stringify\<close> escapes, and an object whose message is structured data.
\<close>

definition ex_text :: string where
  "ex_text =
     [CHR 0x22, CHR 0x5C, CHR 0x08, CHR 0x0C, CHR 0x0A, CHR 0x0D, CHR 0x09, CHR 0x01, CHR 0x1F,
      CHR ''a'']"

definition ex_thrown_text :: jsval where
  "ex_thrown_text = JObj [(''code'', JNum ''42''), (''message'', JStr ex_text)]"

definition ex_data :: jsval where
  "ex_data =
     JArr [JNum ''1e+21'', JNum ''NaN'', JUndefined, JBool True, JNull, JFunction,
           JObj [(''a'', JSymbol ''s''), (''b'', JNum ''-1.5''), (''c'', JError ''Error'' ''x'')],
           JStr ''x'']"

definition ex_thrown_data :: jsval where
  "ex_thrown_data = JObj [(''message'', ex_data)]"

text \<open>The project names of the records of a run on the request \<open>r\<close> alone.\<close>

definition ex_projectNames :: "request \<Rightarrow> jsval list" where
  "ex_projectNames r =
     map projectName
       (dispatched (withUsageTracking (returns ex_response) ''svc'' None ex_world [r] 0))"

section \<open>Facts about the model\<close>

lemma projectName_try_store:
  "take (length \<sigma>) (snd (projectName_try \<sigma> req)) = \<sigma>"
  by (simp add: projectName_try_def clone_def json_def split: sum.splits option.splits)

lemma store_at_call_keeps: "take (length \<sigma>) (store_at_call \<sigma> req) = \<sigma>"
  using projectName_try_store [of \<sigma> req]
  by (simp add: store_at_call_def extract_projectName_def case_prod_unfold split: sum.splits)

lemma store_at_call_nth:
  assumes "i < length \<sigma>"
  shows "store_at_call \<sigma> req ! i = \<sigma> ! i"
proof -
  have "take (length \<sigma>) (store_at_call \<sigma> req) ! i = store_at_call \<sigma> req ! i"
    using assms by simp
  then show ?thesis by (simp add: store_at_call_keeps)
qed

lemma projectName_try_value:
  "fst (projectName_try \<sigma> req) =
     (if bodyUsed (\<sigma> ! req) then Inl (TypeError ''Body is unusable'')
      else case body (\<sigma> ! req) of
             None \<Rightarrow> Inl (SyntaxError ''Unexpected end of JSON input'')
           | Some (Inl e) \<Rightarrow> Inl e
           | Some (Inr parsed) \<Rightarrow>
               (case get_prop parsed ''project_name'' of
                  Inl e \<Rightarrow> Inl e
                | Inr v \<Rightarrow> Inr (if truthy v then v else JStr ''default'')))"
  by (simp add: projectName_try_def clone_def json_def split: sum.splits option.splits)

lemma extract_projectName_value:
  assumes "req < length \<sigma>"
  shows "fst (extract_projectName \<sigma> req) =
     (case fst (projectName_try \<sigma> req) of
        Inr p \<Rightarrow> p
      | Inl e \<Rightarrow> JStr (header_or_default (\<sigma> ! req)))"
proof -
  have "snd (projectName_try \<sigma> req) ! req = \<sigma> ! req"
    using assms projectName_try_store [of \<sigma> req]
    by (metis nth_take)
  then show ?thesis
    by (simp add: extract_projectName_def case_prod_unfold split: sum.splits)
qed

lemma wrapped_fulfilled:
  assumes "handler (store_at_call \<sigma> req) req = (Fulfilled resp, \<sigma>')"
  shows "withUsageTracking handler sName eId w \<sigma> req =
     (let data = \<lparr>serviceName = sName,
                  endpointId = eId,
                  projectName = fst (extract_projectName \<sigma> req),
                  requestTimestamp = Date_toISOString w,
                  responseStatus = status resp,
                  responseTimeMs = Date_now_settled w - Date_now_entry w,
                  errorMessage = JNull,
                  requestMetadata =
                    [(''method'', JStr (req_method (\<sigma>' ! req))),
                     (''url'', JStr (url (\<sigma>' ! req))),
                     (''userAgent'', nullable (headers_get (headers (\<sigma>' ! req)) ''user-agent'')),
                     (''origin'', nullable (headers_get (headers (\<sigma>' ! req)) ''origin''))]\<rparr>
      in \<lparr>outcome = Fulfilled resp,
          handler_calls = [(store_at_call \<sigma> req, req)],
          dispatched = [data],
          logging = dispatch w ''Failed to log usage:'' data\<rparr>)"
  using assms
  by (simp add: withUsageTracking_def store_at_call_def Let_def case_prod_unfold)

lemma wrapped_rejected:
  assumes "handler (store_at_call \<sigma> req) req = (Rejected error, \<sigma>')"
      and "get_prop error ''message'' = Inr m"
  shows "withUsageTracking handler sName eId w \<sigma> req =
     (let data = \<lparr>serviceName = sName,
                  endpointId = eId,
                  projectName = JStr ''error'',
                  requestTimestamp = Date_toISOString w,
                  responseStatus = 500,
                  responseTimeMs = Date_now_settled w - Date_now_entry w,
                  errorMessage = m,
                  requestMetadata =
                    [(''method'', JStr (req_method (\<sigma>' ! req))),
                     (''url'', JStr (url (\<sigma>' ! req)))]\<rparr>
      in \<lparr>outcome =
            (case JSON_stringify
                    (JObj [(''error'', JStr ''Internal server error''), (''message'', m)]) of
               Inl e \<Rightarrow> Rejected e
             | Inr text \<Rightarrow>
                 Fulfilled
                   \<lparr>status = 500,
                    resp_headers = [(''Content-Type'', ''application/json'')],
                    resp_body = text\<rparr>),
          handler_calls = [(store_at_call \<sigma> req, req)],
          dispatched = [data],
          logging = dispatch w ''Failed to log error usage:'' data\<rparr>)"
  using assms
  by (simp add: withUsageTracking_def store_at_call_def Let_def case_prod_unfold
      del: JSON_stringify.simps split: sum.splits)

lemma wrapped_rejected_nullish:
  assumes "handler (store_at_call \<sigma> req) req = (Rejected error, \<sigma>')"
      and "get_prop error ''message'' = Inl e"
  shows "withUsageTracking handler sName eId w \<sigma> req =
     \<lparr>outcome = Rejected e,
      handler_calls = [(store_at_call \<sigma> req, req)],
      dispatched = [],
      logging = \<lparr>inserts = [], console = []\<rparr>\<rparr>"
  using assms
  by (simp add: withUsageTracking_def store_at_call_def Let_def case_prod_unfold)

lemma logUsage_fulfils: "\<exists>eff. logUsage construct env db data = Fulfilled eff"
  by (simp add: logUsage_def split: sum.splits prod.splits)

lemma handler_calls_wrapped:
  "handler_calls (withUsageTracking handler sName eId w \<sigma> req) = [(store_at_call \<sigma> req, req)]"
  by (simp add: withUsageTracking_def store_at_call_def Let_def case_prod_unfold
      del: JSON_stringify.simps split: settled.splits sum.splits)

lemma ex_store_at_call:
  "store_at_call [ex_request] 0 = [ex_request, ex_request\<lparr>bodyUsed := True\<rparr>]"
  by (simp add: store_at_call_def extract_projectName_def projectName_try_def clone_def
      json_def ex_request_def)

lemma returns_settles:
  "returns resp (store_at_call \<sigma> req) req = (Fulfilled resp, store_at_call \<sigma> req)"
  by (simp add: returns_def)

lemma throws_settles:
  "throws v (store_at_call \<sigma> req) req = (Rejected v, store_at_call \<sigma> req)"
  by (simp add: throws_def)

lemma stringify_message_undefined:
  \<open>JSON_stringify (JObj [(''error'', JStr ''Internal server error''), (''message'', JUndefined)])
     = Inr (Some ''{"error":"Internal server error"}'')\<close>
  by (simp add: quote_def quote_char_def)

lemma stringify_message_string:
  \<open>JSON_stringify (JObj [(''error'', JStr ''Internal server error''), (''message'', JStr m)])
     = Inr (Some (''{"error":"Internal server error","message":'' @ quote m @ ''}''))\<close>
  by (simp add: quote_def quote_char_def)

lemma outcome_wrapped_world:
  "outcome
     (withUsageTracking handler sName eId
        (w\<lparr>Deno_env := env, supabase_construct := construct, supabase_insert := db\<rparr>) \<sigma> req)
     = outcome (withUsageTracking handler sName eId w \<sigma> req)"
  by (simp add: withUsageTracking_def Let_def case_prod_unfold
      del: JSON_stringify.simps split: settled.splits sum.splits)

lemma ex_createClient:
  "createClient ex_construct (ex_env ''SUPABASE_URL'') (ex_env ''SUPABASE_SERVICE_ROLE_KEY'')
     = Inr (''https://db.example.test'', ''secret'')"
  by (simp add: createClient_def ex_env_def ex_construct_def)




text \<open>
  When the message is a value that \<^verbatim>\<open>JSON.stringify\<close> cannot write, the record has
  been dispatched when the \<^verbatim>\<open>catch\<close> clause throws, and the wrapped handler is rejected.
\<close>

lemma stringify_failure_rejects_after_dispatch:
  "map errorMessage
     (dispatched
        (withUsageTracking (throws (JObj [(''message'', JBigInt 1)])) sName eId w \<sigma> req))
     = [JBigInt 1]
   \<and> outcome
       (withUsageTracking (throws (JObj [(''message'', JBigInt 1)])) sName eId w \<sigma> req)
     = Rejected (TypeError ''Do not know how to serialize a BigInt'')"
  by (simp add: wrapped_rejected [where \<sigma>' = "store_at_call \<sigma> req"
        and error = "JObj [(''message'', JBigInt 1)]" and m = "JBigInt 1"]
      throws_def Let_def quote_def quote_char_def)

section \<open>The claims\<close>

text \<open>
  C1, as stated, fails: the request's body parses to the empty object, which has no
  \<^verbatim>\<open>project_name\<close>, and the request carries \<^verbatim>\<open>X-Project-Name: acme\<close>; the record's
  project name is \<^verbatim>\<open>default\<close>, not \<^verbatim>\<open>acme\<close>. The header is read in the \<^verbatim>\<open>catch\<close>
  clause only.
\<close>

theorem projectName_header_ignored_when_body_parses:
  "body ex_request = Some (Inr (JObj []))
   \<and> get_prop (JObj []) ''project_name'' = Inr JUndefined
   \<and> headers_get (headers ex_request) ''X-Project-Name'' = Some ''acme''
   \<and> map projectName
        (dispatched (withUsageTracking (returns ex_response) ''svc'' None ex_world [ex_request] 0))
      = [JStr ''default'']
   \<and> JStr ''default'' \<noteq> JStr ''acme''"
  by (simp add: wrapped_fulfilled [where \<sigma>' = "store_at_call [ex_request] 0"] returns_def Let_def
      extract_projectName_def projectName_try_def clone_def json_def ex_request_def
      headers_get_def lower_char_def)

text \<open>
  C1, amended: when the handler returns, the record's project name is the body's
  \<^verbatim>\<open>project_name\<close> if the clone's body parses as JSON and that property is truthy; it
  is \<^verbatim>\<open>default\<close> if the body parses to a value other than \<^verbatim>\<open>null\<close> whose
  \<^verbatim>\<open>project_name\<close> is missing or falsy, whatever the headers; and only when the body
  cannot be read or parsed, or parses to \<^verbatim>\<open>null\<close>, is it the value of the
  \<^verbatim>\<open>X-Project-Name\<close> header, or \<^verbatim>\<open>default\<close> when that header is absent or empty.
\<close>

theorem projectName_derivation:
  assumes "req < length \<sigma>"
      and "handler (store_at_call \<sigma> req) req = (Fulfilled resp, \<sigma>')"
      and "fallback =
             (case headers_get (headers (\<sigma> ! req)) ''X-Project-Name'' of
                None \<Rightarrow> JStr ''default''
              | Some h \<Rightarrow> if h = [] then JStr ''default'' else JStr h)"
  shows "map projectName (dispatched (withUsageTracking handler sName eId w \<sigma> req)) =
     [if bodyUsed (\<sigma> ! req) then fallback
      else case body (\<sigma> ! req) of
             None \<Rightarrow> fallback
           | Some (Inl e) \<Rightarrow> fallback
           | Some (Inr parsed) \<Rightarrow>
               (case get_prop parsed ''project_name'' of
                  Inl e \<Rightarrow> fallback
                | Inr v \<Rightarrow> if truthy v then v else JStr ''default'')]"
proof -
  have f: "JStr (header_or_default (\<sigma> ! req)) = fallback"
    by (simp add: assms(3) header_or_default_def split: option.splits)
  show ?thesis
    using assms(1)
      wrapped_fulfilled [where handler = handler and \<sigma> = \<sigma> and req = req and resp = resp
        and \<sigma>' = \<sigma>' and sName = sName and eId = eId and w = w, OF assms(2)]
    by (simp add: Let_def extract_projectName_value projectName_try_value f
        split: option.splits sum.splits)
qed

theorem projectName_derivation_witness:
  "(0::nat) < length [ex_request]
   \<and> returns ex_response (store_at_call [ex_request] 0) 0
       = (Fulfilled ex_response, store_at_call [ex_request] 0)
   \<and> ex_projectNames ex_request = [JStr ''default'']
   \<and> ex_projectNames
        (ex_request\<lparr>headers := [(''x-project-name'', ''acme'')],
                     body := Some (Inl (SyntaxError ''Unexpected token''))\<rparr>)
      = [JStr ''acme'']
   \<and> ex_projectNames (ex_request\<lparr>headers := [], body := None\<rparr>) = [JStr ''default'']
   \<and> ex_projectNames
        (ex_request\<lparr>headers := [(''X-Project-Name'', '''')], body := None\<rparr>)
      = [JStr ''default'']
   \<and> ex_projectNames (ex_request\<lparr>body := Some (Inr JNull)\<rparr>) = [JStr ''acme'']
   \<and> ex_projectNames (ex_request\<lparr>bodyUsed := True\<rparr>) = [JStr ''acme'']
   \<and> ex_projectNames
        (ex_request\<lparr>body := Some (Inr (JObj [(''project_name'', JStr ''beta'')]))\<rparr>)
      = [JStr ''beta'']
   \<and> ex_projectNames
        (ex_request\<lparr>body := Some (Inr (JObj [(''project_name'', JStr '''')]))\<rparr>)
      = [JStr ''default'']"
proof -
  have run: "ex_projectNames r =
     [if bodyUsed r
      then (case headers_get (headers r) ''X-Project-Name'' of
              None \<Rightarrow> JStr ''default''
            | Some h \<Rightarrow> if h = [] then JStr ''default'' else JStr h)
      else case body r of
             None \<Rightarrow>
               (case headers_get (headers r) ''X-Project-Name'' of
                  None \<Rightarrow> JStr ''default''
                | Some h \<Rightarrow> if h = [] then JStr ''default'' else JStr h)
           | Some (Inl e) \<Rightarrow>
               (case headers_get (headers r) ''X-Project-Name'' of
                  None \<Rightarrow> JStr ''default''
                | Some h \<Rightarrow> if h = [] then JStr ''default'' else JStr h)
           | Some (Inr parsed) \<Rightarrow>
               (case get_prop parsed ''project_name'' of
                  Inl e \<Rightarrow>
                    (case headers_get (headers r) ''X-Project-Name'' of
                       None \<Rightarrow> JStr ''default''
                     | Some h \<Rightarrow> if h = [] then JStr ''default'' else JStr h)
                | Inr v \<Rightarrow> if truthy v then v else JStr ''default'')]" for r
  proof -
    have a: "(0::nat) < length [r]" and n: "[r] ! 0 = r" by simp_all
    show ?thesis
      using projectName_derivation [where req = 0 and \<sigma> = "[r]"
          and handler = "returns ex_response" and resp = ex_response
          and \<sigma>' = "store_at_call [r] 0" and sName = "''svc''" and eId = None
          and w = ex_world, OF a returns_settles refl, unfolded n]
      by (simp add: ex_projectNames_def)
  qed
  show ?thesis
    by (simp add: run returns_settles ex_request_def headers_get_def lower_char_def)
qed

text \<open>
  C2 does not hold of the code: a handler that rejects with \<^verbatim>\<open>null\<close> (or
  \<^verbatim>\<open>undefined\<close>) gets no record and no response. The \<^verbatim>\<open>catch\<close> clause throws at
  \<^verbatim>\<open>error.message\<close>, and the caller sees the promise rejected with that TypeError
  instead of a response of status 500.
\<close>

theorem no_response_when_handler_throws_null:
  "get_prop JNull ''message'' = Inl (TypeError ''Cannot read properties of null'')
   \<and> dispatched (withUsageTracking (throws JNull) sName eId w \<sigma> req) = []
   \<and> outcome (withUsageTracking (throws JNull) sName eId w \<sigma> req)
       = Rejected (TypeError ''Cannot read properties of null'')"
  by (simp add: wrapped_rejected_nullish [where \<sigma>' = "store_at_call \<sigma> req" and error = JNull]
      throws_def)

text \<open>
  What C2 says does hold when the thrown value is an Error object: one record, and the
  response of status 500 with the message in its body.
\<close>

lemma Error_thrown_logged_and_answered_500:
  assumes "handler (store_at_call \<sigma> req) req = (Rejected (JError n m), \<sigma>')"
  shows \<open>dispatched (withUsageTracking handler sName eId w \<sigma> req) =
       [\<lparr>serviceName = sName,
         endpointId = eId,
         projectName = JStr ''error'',
         requestTimestamp = Date_toISOString w,
         responseStatus = 500,
         responseTimeMs = Date_now_settled w - Date_now_entry w,
         errorMessage = JStr m,
         requestMetadata =
           [(''method'', JStr (req_method (\<sigma>' ! req))), (''url'', JStr (url (\<sigma>' ! req)))]\<rparr>]
     \<and> outcome (withUsageTracking handler sName eId w \<sigma> req) =
       Fulfilled
         \<lparr>status = 500,
          resp_headers = [(''Content-Type'', ''application/json'')],
          resp_body = Some (''{"error":"Internal server error","message":'' @ quote m @ ''}'')\<rparr>\<close>
  using wrapped_rejected [where handler = handler and \<sigma> = \<sigma> and req = req
      and error = "JError n m" and \<sigma>' = \<sigma>' and m = "JStr m" and sName = sName and eId = eId
      and w = w] assms
  by (simp add: Let_def stringify_message_string del: JSON_stringify.simps)

text \<open>
  C3: when the handler returns a response, of any status, the wrapper returns that
  same response, and exactly one record is given to the logger: its status is the
  response's, its error message is \<^verbatim>\<open>null\<close>, and its metadata are the method, the
  url and the \<^verbatim>\<open>user-agent\<close> and \<^verbatim>\<open>origin\<close> headers of the request.
\<close>

theorem handler_returns_logged_and_passed_on:
  assumes "handler (store_at_call \<sigma> req) req = (Fulfilled resp, \<sigma>')"
  shows "outcome (withUsageTracking handler sName eId w \<sigma> req) = Fulfilled resp
     \<and> (\<exists>d. dispatched (withUsageTracking handler sName eId w \<sigma> req) = [d]
          \<and> responseStatus d = status resp
          \<and> errorMessage d = JNull
          \<and> requestMetadata d =
              [(''method'', JStr (req_method (\<sigma>' ! req))),
               (''url'', JStr (url (\<sigma>' ! req))),
               (''userAgent'', nullable (headers_get (headers (\<sigma>' ! req)) ''user-agent'')),
               (''origin'', nullable (headers_get (headers (\<sigma>' ! req)) ''origin''))])"
  using wrapped_fulfilled [where handler = handler and \<sigma> = \<sigma> and req = req and resp = resp
      and \<sigma>' = \<sigma>' and sName = sName and eId = eId and w = w] assms
  by (simp add: Let_def)

theorem handler_returns_logged_and_passed_on_witness:
  "returns ex_response (store_at_call [ex_request] 0) 0
      = (Fulfilled ex_response, store_at_call [ex_request] 0)
   \<and> status ex_response = 404
   \<and> outcome (withUsageTracking (returns ex_response) ''svc'' None ex_world [ex_request] 0)
      = Fulfilled ex_response
   \<and> map responseStatus
        (dispatched (withUsageTracking (returns ex_response) ''svc'' None ex_world [ex_request] 0))
      = [404]
   \<and> map errorMessage
        (dispatched (withUsageTracking (returns ex_response) ''svc'' None ex_world [ex_request] 0))
      = [JNull]
   \<and> map requestMetadata
        (dispatched (withUsageTracking (returns ex_response) ''svc'' None ex_world [ex_request] 0))
      = [[(''method'', JStr ''POST''), (''url'', JStr ''https://example.test/fn''),
          (''userAgent'', JStr ''curl''), (''origin'', JNull)]]"
proof -
  have a: "returns ex_response (store_at_call [ex_request] 0) 0
      = (Fulfilled ex_response, store_at_call [ex_request] 0)"
    by (simp add: returns_def)
  show ?thesis
    using a
      handler_returns_logged_and_passed_on
        [where handler = "returns ex_response" and \<sigma> = "[ex_request]" and req = 0
          and resp = ex_response and \<sigma>' = "store_at_call [ex_request] 0"
          and sName = "''svc''" and eId = None and w = ex_world]
    by (auto simp: store_at_call_nth ex_request_def ex_response_def headers_get_def
        lower_char_def nullable_def)
qed

text \<open>
  C4: the promise of \<^verbatim>\<open>logUsage\<close> is never rejected. Missing configuration, a
  constructor of the client that throws, an error reported by the storage collaborator
  and a rejection of the insert each end in one line on the error console and nothing
  else. How the wrapped handler settles, with which response or which thrown value,
  does not depend on the environment, on the library or on the storage collaborator,
  so it is the same as when the logging succeeds.
\<close>

theorem logging_failure_isolated:
  "(\<exists>eff. logUsage construct env db data = Fulfilled eff)
   \<and> (createClient construct (env ''SUPABASE_URL'') (env ''SUPABASE_SERVICE_ROLE_KEY'') = Inl e \<longrightarrow>
        logUsage construct env db data =
          Fulfilled \<lparr>inserts = [],
                     console = [Console_error [JStr ''Error in usage logging:'', e]]\<rparr>)
   \<and> (createClient construct (env ''SUPABASE_URL'') (env ''SUPABASE_SERVICE_ROLE_KEY'') = Inr client
        \<and> db client ''service_usage_logs'' (usage_row_of data) = Fulfilled err \<and> truthy err \<longrightarrow>
        logUsage construct env db data =
          Fulfilled \<lparr>inserts = [(''service_usage_logs'', usage_row_of data)],
                     console = [Console_error [JStr ''Failed to log usage:'', err]]\<rparr>)
   \<and> (createClient construct (env ''SUPABASE_URL'') (env ''SUPABASE_SERVICE_ROLE_KEY'') = Inr client
        \<and> db client ''service_usage_logs'' (usage_row_of data) = Rejected e \<longrightarrow>
        logUsage construct env db data =
          Fulfilled \<lparr>inserts = [(''service_usage_logs'', usage_row_of data)],
                     console = [Console_error [JStr ''Error in usage logging:'', e]]\<rparr>)
   \<and> outcome
        (withUsageTracking handler sName eId
           (w\<lparr>Deno_env := env, supabase_construct := construct, supabase_insert := db\<rparr>) \<sigma> req)
       = outcome (withUsageTracking handler sName eId w \<sigma> req)"
proof (intro conjI)
  show "\<exists>eff. logUsage construct env db data = Fulfilled eff"
    by (rule logUsage_fulfils)
qed (simp_all add: outcome_wrapped_world logUsage_def logUsage_try_def Let_def)

theorem logging_failure_isolated_witness:
  "createClient ex_construct (Map.empty ''SUPABASE_URL'') (Map.empty ''SUPABASE_SERVICE_ROLE_KEY'')
     = Inl (JError ''Error'' ''supabaseUrl is required.'')
   \<and> logUsage ex_construct Map.empty db_denies ex_record =
       Fulfilled \<lparr>inserts = [],
                  console = [Console_error [JStr ''Error in usage logging:'',
                                            JError ''Error'' ''supabaseUrl is required.'']]\<rparr>
   \<and> createClient ex_construct ([''SUPABASE_URL'' \<mapsto> ''https://db.example.test''] ''SUPABASE_URL'')
        ([''SUPABASE_URL'' \<mapsto> ''https://db.example.test''] ''SUPABASE_SERVICE_ROLE_KEY'')
     = Inl (JError ''Error'' ''supabaseKey is required.'')
   \<and> logUsage ex_construct [''SUPABASE_URL'' \<mapsto> ''https://db.example.test''] db_denies ex_record =
       Fulfilled \<lparr>inserts = [],
                  console = [Console_error [JStr ''Error in usage logging:'',
                                            JError ''Error'' ''supabaseKey is required.'']]\<rparr>
   \<and> createClient ex_construct ((ex_env(''SUPABASE_URL'' \<mapsto> ''not a url'')) ''SUPABASE_URL'')
        ((ex_env(''SUPABASE_URL'' \<mapsto> ''not a url'')) ''SUPABASE_SERVICE_ROLE_KEY'')
     = Inl (TypeError ''Invalid URL'')
   \<and> logUsage ex_construct (ex_env(''SUPABASE_URL'' \<mapsto> ''not a url'')) db_denies ex_record =
       Fulfilled \<lparr>inserts = [],
                  console = [Console_error [JStr ''Error in usage logging:'',
                                            TypeError ''Invalid URL'']]\<rparr>
   \<and> createClient ex_construct (ex_env ''SUPABASE_URL'') (ex_env ''SUPABASE_SERVICE_ROLE_KEY'')
     = Inr (''https://db.example.test'', ''secret'')
   \<and> truthy (JObj [(''message'', JStr ''permission denied'')])
   \<and> logUsage ex_construct ex_env db_denies ex_record =
       Fulfilled \<lparr>inserts = [(''service_usage_logs'', usage_row_of ex_record)],
                  console = [Console_error [JStr ''Failed to log usage:'',
                                            JObj [(''message'', JStr ''permission denied'')]]]\<rparr>
   \<and> logUsage ex_construct ex_env db_unreachable ex_record =
       Fulfilled \<lparr>inserts = [(''service_usage_logs'', usage_row_of ex_record)],
                  console = [Console_error [JStr ''Error in usage logging:'',
                                            TypeError ''fetch failed'']]\<rparr>
   \<and> outcome (withUsageTracking (returns ex_response) ''svc'' None
                (ex_world\<lparr>Deno_env := Map.empty, supabase_construct := ex_construct,
                            supabase_insert := db_unreachable\<rparr>) [ex_request] 0)
     = outcome (withUsageTracking (returns ex_response) ''svc'' None ex_world [ex_request] 0)"
proof -
  have a: "createClient ex_construct (Map.empty ''SUPABASE_URL'')
             (Map.empty ''SUPABASE_SERVICE_ROLE_KEY'')
     = Inl (JError ''Error'' ''supabaseUrl is required.'')"
    by (simp add: createClient_def)
  have a2: "createClient ex_construct
              ([''SUPABASE_URL'' \<mapsto> ''https://db.example.test''] ''SUPABASE_URL'')
              ([''SUPABASE_URL'' \<mapsto> ''https://db.example.test''] ''SUPABASE_SERVICE_ROLE_KEY'')
     = Inl (JError ''Error'' ''supabaseKey is required.'')"
    by (simp add: createClient_def)
  have a3: "createClient ex_construct ((ex_env(''SUPABASE_URL'' \<mapsto> ''not a url'')) ''SUPABASE_URL'')
        ((ex_env(''SUPABASE_URL'' \<mapsto> ''not a url'')) ''SUPABASE_SERVICE_ROLE_KEY'')
     = Inl (TypeError ''Invalid URL'')"
    by (simp add: createClient_def ex_env_def ex_construct_def)
  have b: "db_denies (''https://db.example.test'', ''secret'') ''service_usage_logs''
             (usage_row_of ex_record) = Fulfilled (JObj [(''message'', JStr ''permission denied'')])"
    by (simp add: db_denies_def)
  have c: "db_unreachable (''https://db.example.test'', ''secret'') ''service_usage_logs''
             (usage_row_of ex_record) = Rejected (TypeError ''fetch failed'')"
    by (simp add: db_unreachable_def)
  have t: "truthy (JObj [(''message'', JStr ''permission denied'')])"
    by simp
  have 1: "logUsage ex_construct Map.empty db_denies ex_record =
       Fulfilled \<lparr>inserts = [],
                  console = [Console_error [JStr ''Error in usage logging:'',
                                            JError ''Error'' ''supabaseUrl is required.'']]\<rparr>"
    using a logging_failure_isolated [where construct = ex_construct and env = Map.empty
        and db = db_denies and data = ex_record
        and e = "JError ''Error'' ''supabaseUrl is required.''"]
    by blast
  have 2: "logUsage ex_construct [''SUPABASE_URL'' \<mapsto> ''https://db.example.test''] db_denies
             ex_record =
       Fulfilled \<lparr>inserts = [],
                  console = [Console_error [JStr ''Error in usage logging:'',
                                            JError ''Error'' ''supabaseKey is required.'']]\<rparr>"
    using a2 logging_failure_isolated [where construct = ex_construct
        and env = "[''SUPABASE_URL'' \<mapsto> ''https://db.example.test'']"
        and db = db_denies and data = ex_record
        and e = "JError ''Error'' ''supabaseKey is required.''"]
    by blast
  have 3: "logUsage ex_construct (ex_env(''SUPABASE_URL'' \<mapsto> ''not a url'')) db_denies ex_record =
       Fulfilled \<lparr>inserts = [],
                  console = [Console_error [JStr ''Error in usage logging:'',
                                            TypeError ''Invalid URL'']]\<rparr>"
    using a3 logging_failure_isolated [where construct = ex_construct
        and env = "ex_env(''SUPABASE_URL'' \<mapsto> ''not a url'')"
        and db = db_denies and data = ex_record and e = "TypeError ''Invalid URL''"]
    by blast
  have 4: "logUsage ex_construct ex_env db_denies ex_record =
       Fulfilled \<lparr>inserts = [(''service_usage_logs'', usage_row_of ex_record)],
                  console = [Console_error [JStr ''Failed to log usage:'',
                                            JObj [(''message'', JStr ''permission denied'')]]]\<rparr>"
    using ex_createClient b t
      logging_failure_isolated [where construct = ex_construct and env = ex_env
        and db = db_denies and data = ex_record
        and client = "(''https://db.example.test'', ''secret'')"
        and err = "JObj [(''message'', JStr ''permission denied'')]"]
    by blast
  have 5: "logUsage ex_construct ex_env db_unreachable ex_record =
       Fulfilled \<lparr>inserts = [(''service_usage_logs'', usage_row_of ex_record)],
                  console = [Console_error [JStr ''Error in usage logging:'',
                                            TypeError ''fetch failed'']]\<rparr>"
    using ex_createClient c
      logging_failure_isolated [where construct = ex_construct and env = ex_env
        and db = db_unreachable and data = ex_record
        and client = "(''https://db.example.test'', ''secret'')"
        and e = "TypeError ''fetch failed''"]
    by blast
  have 6: "outcome (withUsageTracking (returns ex_response) ''svc'' None
                (ex_world\<lparr>Deno_env := Map.empty, supabase_construct := ex_construct,
                            supabase_insert := db_unreachable\<rparr>) [ex_request] 0)
     = outcome (withUsageTracking (returns ex_response) ''svc'' None ex_world [ex_request] 0)"
    using logging_failure_isolated [where construct = ex_construct and env = Map.empty
        and db = db_unreachable and handler = "returns ex_response" and sName = "''svc''"
        and eId = None and w = ex_world and \<sigma> = "[ex_request]" and req = 0]
    by blast
  show ?thesis
    using a a2 a3 ex_createClient t 1 2 3 4 5 6 by blast
qed

text \<open>
  C5 does not hold of the code: a handler that rejects with \<^verbatim>\<open>undefined\<close> (or
  \<^verbatim>\<open>null\<close>) makes the \<^verbatim>\<open>catch\<close> clause throw at \<^verbatim>\<open>error.message\<close>, before
  \<^verbatim>\<open>logUsage\<close> is called: no record is dispatched, and the wrapped handler itself is
  rejected with a TypeError.
\<close>

theorem no_record_when_handler_throws_undefined:
  "get_prop JUndefined ''message'' = Inl (TypeError ''Cannot read properties of undefined'')
   \<and> dispatched (withUsageTracking (throws JUndefined) sName eId w \<sigma> req) = []
   \<and> outcome (withUsageTracking (throws JUndefined) sName eId w \<sigma> req)
       = Rejected (TypeError ''Cannot read properties of undefined'')"
  by (simp add: wrapped_rejected_nullish [where \<sigma>' = "store_at_call \<sigma> req" and error = JUndefined]
      throws_def)

text \<open>
  C6: the handler is called once, with the request the wrapper was given, in a store
  where every object that existed before, the request among them, is as it was: its
  body is unread if it was unread, and its content is the same. What the wrapper read
  is the body of a new object.
\<close>

theorem handler_receives_untouched_request:
  assumes "req < length \<sigma>"
  shows "handler_calls (withUsageTracking handler sName eId w \<sigma> req) = [(store_at_call \<sigma> req, req)]
     \<and> store_at_call \<sigma> req ! req = \<sigma> ! req
     \<and> take (length \<sigma>) (store_at_call \<sigma> req) = \<sigma>"
  using assms by (simp add: handler_calls_wrapped store_at_call_nth store_at_call_keeps)

theorem handler_receives_untouched_request_witness:
  "(0::nat) < length [ex_request]
   \<and> handler_calls (withUsageTracking reads_body ''svc'' None ex_world [ex_request] 0)
       = [([ex_request, ex_request\<lparr>bodyUsed := True\<rparr>], 0)]
   \<and> bodyUsed ([ex_request, ex_request\<lparr>bodyUsed := True\<rparr>] ! 0) = False
   \<and> body ([ex_request, ex_request\<lparr>bodyUsed := True\<rparr>] ! 0) = Some (Inr (JObj []))
   \<and> outcome (withUsageTracking reads_body ''svc'' None ex_world [ex_request] 0)
       = Fulfilled \<lparr>status = 200, resp_headers = [], resp_body = Some ''{}''\<rparr>"
proof -
  have a: "(0::nat) < length [ex_request]" by simp
  have b: "reads_body (store_at_call [ex_request] 0) 0 =
     (Fulfilled \<lparr>status = 200, resp_headers = [], resp_body = Some ''{}''\<rparr>,
      [ex_request\<lparr>bodyUsed := True\<rparr>, ex_request\<lparr>bodyUsed := True\<rparr>])"
    by (simp add: ex_store_at_call reads_body_def json_def) (simp add: ex_request_def)
  show ?thesis
    using a
      handler_receives_untouched_request [where req = 0 and \<sigma> = "[ex_request]"
        and handler = reads_body and sName = "''svc''" and eId = None and w = ex_world]
      wrapped_fulfilled [where handler = reads_body and \<sigma> = "[ex_request]" and req = 0
        and \<sigma>' = "[ex_request\<lparr>bodyUsed := True\<rparr>, ex_request\<lparr>bodyUsed := True\<rparr>]"
        and sName = "''svc''" and eId = None and w = ex_world, OF b]
    by (simp add: ex_store_at_call Let_def) (simp add: ex_request_def)
qed




text \<open>
  C8, as stated, fails: without \<^verbatim>\<open>SUPABASE_URL\<close> the client cannot be created, the
  logger makes no insert at all and writes the error to the console.
\<close>

theorem no_insert_without_configuration:
  "Map.empty ''SUPABASE_URL'' = (None :: string option)
   \<and> logUsage (supabase_construct ex_world) Map.empty (supabase_insert ex_world) ex_record =
       Fulfilled \<lparr>inserts = [],
                  console = [Console_error [JStr ''Error in usage logging:'',
                                            JError ''Error'' ''supabaseUrl is required.'']]\<rparr>"
  by (simp add: logUsage_def logUsage_try_def createClient_def)

text \<open>
  C8, amended: whenever the storage client can be created, the logger makes exactly
  one insert for the record it receives, into the table \<^verbatim>\<open>service_usage_logs\<close>; every
  field of the record goes to its column, the two payload sizes are 0, and
  \<^verbatim>\<open>endpoint_id\<close> is \<^verbatim>\<open>null\<close> when \<^verbatim>\<open>endpointId\<close> is absent (or empty).
\<close>

theorem logUsage_inserts_one_row:
  assumes "createClient construct (env ''SUPABASE_URL'') (env ''SUPABASE_SERVICE_ROLE_KEY'')
             = Inr client"
  shows "\<exists>eff row. logUsage construct env db data = Fulfilled eff
     \<and> inserts eff = [(''service_usage_logs'', row)]
     \<and> service_name row = serviceName data
     \<and> endpoint_id row = (if endpointId data = Some [] then None else endpointId data)
     \<and> project_name row = projectName data
     \<and> request_timestamp row = requestTimestamp data
     \<and> response_status row = responseStatus data
     \<and> response_time_ms row = responseTimeMs data
     \<and> request_payload_size row = 0
     \<and> response_payload_size row = 0
     \<and> error_message row = errorMessage data
     \<and> request_metadata row = requestMetadata data"
  using assms
  by (cases "db client ''service_usage_logs'' (usage_row_of data)")
    (auto simp: logUsage_def logUsage_try_def Let_def usage_row_of_def split: option.splits)

theorem logUsage_inserts_one_row_witness:
  "createClient ex_construct (ex_env ''SUPABASE_URL'') (ex_env ''SUPABASE_SERVICE_ROLE_KEY'')
     = Inr (''https://db.example.test'', ''secret'')
   \<and> map inserts
        (case logUsage ex_construct ex_env (supabase_insert ex_world)
                (ex_record\<lparr>endpointId := Some ''ep-1''\<rparr>) of
           Fulfilled eff \<Rightarrow> [eff]
         | Rejected e \<Rightarrow> []) =
       [[(''service_usage_logs'',
          \<lparr>service_name = ''svc'',
           endpoint_id = Some ''ep-1'',
           project_name = JStr ''acme'',
           request_timestamp = ''2024-01-01T00:00:01.250Z'',
           response_status = 200,
           response_time_ms = 250,
           request_payload_size = 0,
           response_payload_size = 0,
           error_message = JNull,
           request_metadata = [(''method'', JStr ''POST'')]\<rparr>)]]
   \<and> map inserts
        (case logUsage ex_construct ex_env db_denies ex_record of
           Fulfilled eff \<Rightarrow> [eff]
         | Rejected e \<Rightarrow> []) =
       [[(''service_usage_logs'',
          \<lparr>service_name = ''svc'',
           endpoint_id = None,
           project_name = JStr ''acme'',
           request_timestamp = ''2024-01-01T00:00:01.250Z'',
           response_status = 200,
           response_time_ms = 250,
           request_payload_size = 0,
           response_payload_size = 0,
           error_message = JNull,
           request_metadata = [(''method'', JStr ''POST'')]\<rparr>)]]"
proof -
  have row_eq: "r = r'"
    if "service_name r = service_name r'" "endpoint_id r = endpoint_id r'"
      "project_name r = project_name r'" "request_timestamp r = request_timestamp r'"
      "response_status r = response_status r'" "response_time_ms r = response_time_ms r'"
      "request_payload_size r = request_payload_size r'"
      "response_payload_size r = response_payload_size r'"
      "error_message r = error_message r'" "request_metadata r = request_metadata r'"
    for r r' :: usage_row
    using that by simp
  obtain eff row where
    e: "logUsage ex_construct ex_env (supabase_insert ex_world)
          (ex_record\<lparr>endpointId := Some ''ep-1''\<rparr>) = Fulfilled eff"
    and i: "inserts eff = [(''service_usage_logs'', row)]"
    and f: "service_name row = serviceName (ex_record\<lparr>endpointId := Some ''ep-1''\<rparr>)"
      "endpoint_id row =
         (if endpointId (ex_record\<lparr>endpointId := Some ''ep-1''\<rparr>) = Some [] then None
          else endpointId (ex_record\<lparr>endpointId := Some ''ep-1''\<rparr>))"
      "project_name row = projectName (ex_record\<lparr>endpointId := Some ''ep-1''\<rparr>)"
      "request_timestamp row = requestTimestamp (ex_record\<lparr>endpointId := Some ''ep-1''\<rparr>)"
      "response_status row = responseStatus (ex_record\<lparr>endpointId := Some ''ep-1''\<rparr>)"
      "response_time_ms row = responseTimeMs (ex_record\<lparr>endpointId := Some ''ep-1''\<rparr>)"
      "request_payload_size row = 0"
      "response_payload_size row = 0"
      "error_message row = errorMessage (ex_record\<lparr>endpointId := Some ''ep-1''\<rparr>)"
      "request_metadata row = requestMetadata (ex_record\<lparr>endpointId := Some ''ep-1''\<rparr>)"
    using logUsage_inserts_one_row [OF ex_createClient, of "supabase_insert ex_world"
        "ex_record\<lparr>endpointId := Some ''ep-1''\<rparr>"]
    by blast
  have r1: "row =
          \<lparr>service_name = ''svc'',
           endpoint_id = Some ''ep-1'',
           project_name = JStr ''acme'',
           request_timestamp = ''2024-01-01T00:00:01.250Z'',
           response_status = 200,
           response_time_ms = 250,
           request_payload_size = 0,
           response_payload_size = 0,
           error_message = JNull,
           request_metadata = [(''method'', JStr ''POST'')]\<rparr>"
    by (rule row_eq) (simp_all add: f ex_record_def)
  obtain eff' row' where
    e': "logUsage ex_construct ex_env db_denies ex_record = Fulfilled eff'"
    and i': "inserts eff' = [(''service_usage_logs'', row')]"
    and f': "service_name row' = serviceName ex_record"
      "endpoint_id row' = (if endpointId ex_record = Some [] then None else endpointId ex_record)"
      "project_name row' = projectName ex_record"
      "request_timestamp row' = requestTimestamp ex_record"
      "response_status row' = responseStatus ex_record"
      "response_time_ms row' = responseTimeMs ex_record"
      "request_payload_size row' = 0"
      "response_payload_size row' = 0"
      "error_message row' = errorMessage ex_record"
      "request_metadata row' = requestMetadata ex_record"
    using logUsage_inserts_one_row [OF ex_createClient, of db_denies ex_record]
    by blast
  have r2: "row' =
          \<lparr>service_name = ''svc'',
           endpoint_id = None,
           project_name = JStr ''acme'',
           request_timestamp = ''2024-01-01T00:00:01.250Z'',
           response_status = 200,
           response_time_ms = 250,
           request_payload_size = 0,
           response_payload_size = 0,
           error_message = JNull,
           request_metadata = [(''method'', JStr ''POST'')]\<rparr>"
    by (rule row_eq) (simp_all add: f' ex_record_def)
  show ?thesis
    using ex_createClient e i r1 e' i' r2 by simp
qed

text \<open>
  C9, as stated, fails: a thrown plain object with a \<^verbatim>\<open>message\<close> property is not an
  Error object, yet its message is not \<^verbatim>\<open>undefined\<close>; it is logged and returned as
  the message of an Error would be.
\<close>

theorem thrown_object_message_is_kept:
  \<open>\<not> is_Error (JObj [(''message'', JStr ''boom'')])
   \<and> map errorMessage
        (dispatched (withUsageTracking (throws (JObj [(''message'', JStr ''boom'')])) ''svc'' None
           ex_world [ex_request] 0)) = [JStr ''boom'']
   \<and> JStr ''boom'' \<noteq> JUndefined
   \<and> outcome (withUsageTracking (throws (JObj [(''message'', JStr ''boom'')])) ''svc'' None
           ex_world [ex_request] 0) =
       Fulfilled
         \<lparr>status = 500,
          resp_headers = [(''Content-Type'', ''application/json'')],
          resp_body = Some ''{"error":"Internal server error","message":"boom"}''\<rparr>\<close>
  by (simp add: wrapped_rejected [where \<sigma>' = "store_at_call [ex_request] 0"
        and error = "JObj [(''message'', JStr ''boom'')]" and m = "JStr ''boom''"]
      throws_def is_Error_def Let_def quote_def quote_char_def)

text \<open>
  C9, amended: when the handler throws a value that is not an Error object and is
  neither \<^verbatim>\<open>undefined\<close> nor \<^verbatim>\<open>null\<close>, the wrapper dispatches one record, whose error
  message is the \<^verbatim>\<open>message\<close> property of the thrown value, never the thrown text
  itself: \<^verbatim>\<open>undefined\<close> for a string, a number, a boolean, an array and an object
  without that property, the property's value for an object that has it. Whenever
  \<^verbatim>\<open>JSON.stringify\<close> can write that value, the wrapper answers with the 500 response,
  whose body is the text of the object with \<^verbatim>\<open>error\<close> and that \<^verbatim>\<open>message\<close>; when the
  message is \<^verbatim>\<open>undefined\<close> the body has no \<^verbatim>\<open>message\<close> member.
\<close>

theorem non_Error_thrown_value:
  assumes "handler (store_at_call \<sigma> req) req = (Rejected error, \<sigma>')"
      and "\<not> is_Error error" and "error \<noteq> JUndefined" and "error \<noteq> JNull"
      and "m = (case error of
                  JObj ps \<Rightarrow> (case map_of ps ''message'' of None \<Rightarrow> JUndefined | Some v \<Rightarrow> v)
                | JCyclic ps \<Rightarrow> (case map_of ps ''message'' of None \<Rightarrow> JUndefined | Some v \<Rightarrow> v)
                | _ \<Rightarrow> JUndefined)"
  shows \<open>map errorMessage (dispatched (withUsageTracking handler sName eId w \<sigma> req)) = [m]
     \<and> (\<forall>text.
           JSON_stringify (JObj [(''error'', JStr ''Internal server error''), (''message'', m)])
             = Inr text \<longrightarrow>
           outcome (withUsageTracking handler sName eId w \<sigma> req) =
             Fulfilled
               \<lparr>status = 500,
                resp_headers = [(''Content-Type'', ''application/json'')],
                resp_body = text\<rparr>)
     \<and> (m = JUndefined \<longrightarrow>
           outcome (withUsageTracking handler sName eId w \<sigma> req) =
             Fulfilled
               \<lparr>status = 500,
                resp_headers = [(''Content-Type'', ''application/json'')],
                resp_body = Some ''{"error":"Internal server error"}''\<rparr>)\<close>
proof -
  have m: "get_prop error ''message'' = Inr m"
    using assms(2-5) by (cases error) (simp_all add: is_Error_def)
  show ?thesis
    using wrapped_rejected [where handler = handler and \<sigma> = \<sigma> and req = req and error = error
        and \<sigma>' = \<sigma>' and sName = sName and eId = eId and w = w, OF assms(1) m]
      stringify_message_undefined
    by (simp add: Let_def del: JSON_stringify.simps)
qed

theorem non_Error_thrown_value_witness:
  \<open>throws (JStr ''boom'') (store_at_call [ex_request] 0) 0
      = (Rejected (JStr ''boom''), store_at_call [ex_request] 0)
   \<and> \<not> is_Error (JStr ''boom'')
   \<and> JStr ''boom'' \<noteq> JUndefined
   \<and> JStr ''boom'' \<noteq> JNull
   \<and> map errorMessage
        (dispatched (withUsageTracking (throws (JStr ''boom'')) ''svc'' None ex_world
           [ex_request] 0)) = [JUndefined]
   \<and> outcome (withUsageTracking (throws (JStr ''boom'')) ''svc'' None ex_world [ex_request] 0) =
       Fulfilled
         \<lparr>status = 500,
          resp_headers = [(''Content-Type'', ''application/json'')],
          resp_body = Some ''{"error":"Internal server error"}''\<rparr>
   \<and> map errorMessage
        (dispatched (withUsageTracking (throws ex_thrown_text) ''svc'' None ex_world
           [ex_request] 0)) = [JStr ex_text]
   \<and> outcome (withUsageTracking (throws ex_thrown_text) ''svc'' None ex_world [ex_request] 0) =
       Fulfilled
         \<lparr>status = 500,
          resp_headers = [(''Content-Type'', ''application/json'')],
          resp_body =
            Some (''{"error":"Internal server error","message":"''
                  @ [CHR 0x5C, CHR 0x22, CHR 0x5C, CHR 0x5C, CHR 0x5C, CHR ''b'',
                     CHR 0x5C, CHR ''f'', CHR 0x5C, CHR ''n'', CHR 0x5C, CHR ''r'',
                     CHR 0x5C, CHR ''t'', CHR 0x5C, CHR ''u'', CHR ''0'', CHR ''0'', CHR ''0'',
                     CHR ''1'', CHR 0x5C, CHR ''u'', CHR ''0'', CHR ''0'', CHR ''1'', CHR ''f'',
                     CHR ''a'']
                  @ ''"}'')\<rparr>
   \<and> map errorMessage
        (dispatched (withUsageTracking (throws ex_thrown_data) ''svc'' None ex_world
           [ex_request] 0)) = [ex_data]
   \<and> outcome (withUsageTracking (throws ex_thrown_data) ''svc'' None ex_world [ex_request] 0) =
       Fulfilled
         \<lparr>status = 500,
          resp_headers = [(''Content-Type'', ''application/json'')],
          resp_body =
            Some ''{"error":"Internal server error","message":[1e+21,null,null,true,null,null,{"b":-1.5,"c":{}},"x"]}''\<rparr>\<close>
proof -
  have a: "\<not> is_Error (JStr ''boom'')" "\<not> is_Error ex_thrown_text" "\<not> is_Error ex_thrown_data"
    by (simp_all add: is_Error_def ex_thrown_text_def ex_thrown_data_def)
  have h1: "JStr ''boom'' \<noteq> JUndefined" "JStr ''boom'' \<noteq> JNull"
    "JUndefined =
       (case JStr ''boom'' of
          JObj ps \<Rightarrow> (case map_of ps ''message'' of None \<Rightarrow> JUndefined | Some v \<Rightarrow> v)
        | JCyclic ps \<Rightarrow> (case map_of ps ''message'' of None \<Rightarrow> JUndefined | Some v \<Rightarrow> v)
        | _ \<Rightarrow> JUndefined)"
    by simp_all
  have h2: "ex_thrown_text \<noteq> JUndefined" "ex_thrown_text \<noteq> JNull"
    "JStr ex_text =
       (case ex_thrown_text of
          JObj ps \<Rightarrow> (case map_of ps ''message'' of None \<Rightarrow> JUndefined | Some v \<Rightarrow> v)
        | JCyclic ps \<Rightarrow> (case map_of ps ''message'' of None \<Rightarrow> JUndefined | Some v \<Rightarrow> v)
        | _ \<Rightarrow> JUndefined)"
    by (simp_all add: ex_thrown_text_def)
  have h3: "ex_thrown_data \<noteq> JUndefined" "ex_thrown_data \<noteq> JNull"
    "ex_data =
       (case ex_thrown_data of
          JObj ps \<Rightarrow> (case map_of ps ''message'' of None \<Rightarrow> JUndefined | Some v \<Rightarrow> v)
        | JCyclic ps \<Rightarrow> (case map_of ps ''message'' of None \<Rightarrow> JUndefined | Some v \<Rightarrow> v)
        | _ \<Rightarrow> JUndefined)"
    by (simp_all add: ex_thrown_data_def)
  have 1: \<open>map errorMessage
        (dispatched (withUsageTracking (throws (JStr ''boom'')) ''svc'' None ex_world
           [ex_request] 0)) = [JUndefined]
     \<and> outcome (withUsageTracking (throws (JStr ''boom'')) ''svc'' None ex_world [ex_request] 0) =
       Fulfilled
         \<lparr>status = 500,
          resp_headers = [(''Content-Type'', ''application/json'')],
          resp_body = Some ''{"error":"Internal server error"}''\<rparr>\<close>
    using non_Error_thrown_value [where handler = "throws (JStr ''boom'')" and \<sigma> = "[ex_request]"
        and req = 0 and error = "JStr ''boom''" and \<sigma>' = "store_at_call [ex_request] 0"
        and sName = "''svc''" and eId = None and w = ex_world and m = JUndefined,
        OF throws_settles a(1) h1]
    by blast
  have 2: "map errorMessage
        (dispatched (withUsageTracking (throws ex_thrown_text) ''svc'' None ex_world
           [ex_request] 0)) = [JStr ex_text]
     \<and> (\<forall>text.
           JSON_stringify (JObj [(''error'', JStr ''Internal server error''),
                                 (''message'', JStr ex_text)]) = Inr text \<longrightarrow>
           outcome (withUsageTracking (throws ex_thrown_text) ''svc'' None ex_world
                      [ex_request] 0) =
             Fulfilled
               \<lparr>status = 500,
                resp_headers = [(''Content-Type'', ''application/json'')],
                resp_body = text\<rparr>)"
    using non_Error_thrown_value [where handler = "throws ex_thrown_text" and \<sigma> = "[ex_request]"
        and req = 0 and error = ex_thrown_text and \<sigma>' = "store_at_call [ex_request] 0"
        and sName = "''svc''" and eId = None and w = ex_world and m = "JStr ex_text",
        OF throws_settles a(2) h2]
    by blast
  have 3: "map errorMessage
        (dispatched (withUsageTracking (throws ex_thrown_data) ''svc'' None ex_world
           [ex_request] 0)) = [ex_data]
     \<and> (\<forall>text.
           JSON_stringify (JObj [(''error'', JStr ''Internal server error''),
                                 (''message'', ex_data)]) = Inr text \<longrightarrow>
           outcome (withUsageTracking (throws ex_thrown_data) ''svc'' None ex_world
                      [ex_request] 0) =
             Fulfilled
               \<lparr>status = 500,
                resp_headers = [(''Content-Type'', ''application/json'')],
                resp_body = text\<rparr>)"
    using non_Error_thrown_value [where handler = "throws ex_thrown_data" and \<sigma> = "[ex_request]"
        and req = 0 and error = ex_thrown_data and \<sigma>' = "store_at_call [ex_request] 0"
        and sName = "''svc''" and eId = None and w = ex_world and m = ex_data,
        OF throws_settles a(3) h3]
    by blast
  have s2: \<open>JSON_stringify (JObj [(''error'', JStr ''Internal server error''),
                                 (''message'', JStr ex_text)]) =
      Inr (Some (''{"error":"Internal server error","message":"''
                  @ [CHR 0x5C, CHR 0x22, CHR 0x5C, CHR 0x5C, CHR 0x5C, CHR ''b'',
                     CHR 0x5C, CHR ''f'', CHR 0x5C, CHR ''n'', CHR 0x5C, CHR ''r'',
                     CHR 0x5C, CHR ''t'', CHR 0x5C, CHR ''u'', CHR ''0'', CHR ''0'', CHR ''0'',
                     CHR ''1'', CHR 0x5C, CHR ''u'', CHR ''0'', CHR ''0'', CHR ''1'', CHR ''f'',
                     CHR ''a'']
                  @ ''"}''))\<close>
    by (simp add: ex_text_def quote_def quote_char_def hex_digit_def)
  have s3: \<open>JSON_stringify (JObj [(''error'', JStr ''Internal server error''),
                                 (''message'', ex_data)]) =
      Inr (Some ''{"error":"Internal server error","message":[1e+21,null,null,true,null,null,{"b":-1.5,"c":{}},"x"]}'')\<close>
    by (simp add: ex_data_def quote_def quote_char_def)
  show ?thesis
    using a(1) h1(1,2) 1 2 3 s2 s3 throws_settles [of "JStr ''boom''" "[ex_request]" 0]
    by blast
qed



end
